theory Spec2Isabelle
  imports Main "HOL-Library.Sublist"
begin

section \<open>Data model\<close>

text \<open>
  The program is one Streamlit script, \<^verbatim>\<open>app.py\<close>. Streamlit runs \<^verbatim>\<open>main()\<close> from top to
  bottom once per user interaction; what survives from one run to the next is
  \<^verbatim>\<open>st.session_state\<close>. A Python \<^verbatim>\<open>str\<close> is modelled as a \<^typ>\<open>string\<close>, each \<^typ>\<open>char\<close>
  standing for one code point below 256.

  A chat message is the dict \<^verbatim>\<open>{"role": ..., "content": ...}\<close>.
\<close>

record message =
  role :: string
  content :: string

text \<open>
  \<^verbatim>\<open>st.session_state\<close> as the script finds it at the start of a run: each of its two keys
  may be absent (\<open>None\<close>), which is the case in a fresh session.
\<close>

record stored_session =
  stored_messages :: "message list option"
  stored_user_input :: "string option"

text \<open>\<^verbatim>\<open>st.session_state\<close> once both keys exist (after lines 125-130).\<close>

record session_state =
  messages :: "message list"
  user_input :: string

text \<open>What a run puts on the page, in order; only the calls that carry text or audio.\<close>

datatype ui_event =
    StWrite string
  | StWarning string
  | StError string
  | StAudio string
  | StChatMessage string string

text \<open>
  The state a run threads through its calls: the session state, the page written so far,
  and the prompts handed to \<^verbatim>\<open>model.invoke\<close> so far (a trace of the calls to the backend).
\<close>

record world =
  state :: session_state
  ui :: "ui_event list"
  prompts :: "string list"

text \<open>
  An external call either returns a value or raises an exception derived from
  \<^verbatim>\<open>Exception\<close>, of which only \<^verbatim>\<open>str(e)\<close> is used by the script.
\<close>

datatype 'a outcome = Returns 'a | Raises string

text \<open>
  What \<^verbatim>\<open>model.invoke\<close> may hand back: a string, \<^verbatim>\<open>None\<close>, or some other object, of which
  only the truth value matters to the script.
\<close>

datatype pyval = PyStr string | PyNone | PyObj bool

fun truthy :: "pyval \<Rightarrow> bool" where
  "truthy (PyStr s) = (s \<noteq> [])"
| "truthy PyNone = False"
| "truthy (PyObj b) = b"

fun isinstance_str :: "pyval \<Rightarrow> bool" where
  "isinstance_str (PyStr s) = True"
| "isinstance_str PyNone = False"
| "isinstance_str (PyObj b) = False"

text \<open>
  What can happen inside \<^verbatim>\<open>speech_to_text\<close>: opening the microphone raises (before anything
  is written); calibration or capture raises, or recognition raises something other than
  the two handled exceptions; recognition returns text; recognition raises
  \<^verbatim>\<open>UnknownValueError\<close>; recognition raises \<^verbatim>\<open>RequestError\<close>.
\<close>

datatype recognition =
    MicrophoneError string
  | CaptureError string
  | Recognized string
  | UnknownValueError
  | RequestError string

text \<open>
  Everything one run of the script reads from outside: the widgets and the three external
  services. \<open>typed\<close> is the content of the text box when the user has edited it
  (\<open>None\<close>: the box shows its default value).
\<close>

record environment =
  typed :: "string option"
  mic_button :: bool
  recognize :: recognition
  invoke :: "string \<Rightarrow> pyval outcome"
  listen_button :: bool
  synthesize :: "string \<Rightarrow> string \<Rightarrow> string outcome"
  generate_chat_button :: bool

section \<open>String helpers of Python\<close>

text \<open>\<^verbatim>\<open>str.isspace\<close> on one code point below 256.\<close>

definition isspace :: "char \<Rightarrow> bool" where
  "isspace c = ((of_char c :: nat) \<in> set [9, 10, 11, 12, 13, 28, 29, 30, 31, 32, 133, 160])"

text \<open>\<^verbatim>\<open>str.strip()\<close> without arguments.\<close>

definition lstrip :: "string \<Rightarrow> string" where
  "lstrip s = dropWhile isspace s"

definition rstrip :: "string \<Rightarrow> string" where
  "rstrip s = rev (dropWhile isspace (rev s))"

definition str_strip :: "string \<Rightarrow> string" where
  "str_strip s = rstrip (lstrip s)"

section \<open>The script\<close>

subsection \<open>Text to speech (lines 10-20)\<close>

definition text_to_speech :: "(string \<Rightarrow> string \<Rightarrow> string outcome) \<Rightarrow> string \<Rightarrow> string \<Rightarrow> world \<Rightarrow> world" where
  "text_to_speech synth text language w =
     (case synth text language of
        Returns temp_audio_file \<Rightarrow> w\<lparr>ui := ui w @ [StAudio temp_audio_file]\<rparr>
      | Raises e \<Rightarrow> w\<lparr>ui := ui w @ [StError (''Error in text-to-speech conversion: '' @ e)]\<rparr>)"

subsection \<open>Speech to text (lines 23-42)\<close>

definition speech_to_text :: "recognition \<Rightarrow> world \<Rightarrow> string option \<times> world" where
  "speech_to_text r w =
     (case r of
        MicrophoneError e \<Rightarrow>
          (None, w\<lparr>ui := ui w @ [StError (''Error in speech-to-text conversion: '' @ e)]\<rparr>)
      | CaptureError e \<Rightarrow>
          (None, w\<lparr>ui := ui w @ [StWrite ''Listening... Speak now!'',
                                   StError (''Error in speech-to-text conversion: '' @ e)]\<rparr>)
      | Recognized text \<Rightarrow>
          (Some text, w\<lparr>ui := ui w @ [StWrite ''Listening... Speak now!'']\<rparr>)
      | UnknownValueError \<Rightarrow>
          (None, w\<lparr>ui := ui w @ [StWrite ''Listening... Speak now!'',
                                   StWarning ''Sorry, I could not understand the audio.'']\<rparr>)
      | RequestError e \<Rightarrow>
          (None, w\<lparr>ui := ui w @ [StWrite ''Listening... Speak now!'',
                                   StError (''Could not request results from Google Speech Recognition service; '' @ e)]\<rparr>))"

subsection \<open>The system prompt (lines 45-72)\<close>

definition SYSTEM_PROMPT :: string where
  \<open>SYSTEM_PROMPT =
     ''You are an AI financial analyst. Maintain context and provide insightful responses. "\<newline>'' @
     ''    "Do not display the thinking process, internal thoughts, or reasoning. "\<newline>'' @
     ''    "Only return the final response directly to the user."\<newline>'' @
     ''    You are an advanced AI financial analyst. Your task is to generate in-depth financial insights, trend analysis, and investment strategies based on user inputs. Follow the structured format below and provide actionable recommendations:\<newline>'' @
     ''\<newline>'' @
     ''1. **Market Trend Analysis**  \<newline>'' @
     ''   - Analyze market trends based on historical data, economic indicators, and global events.  \<newline>'' @
     ''   - Identify emerging opportunities and potential risks.  \<newline>'' @
     ''   - Provide key insights, trend forecasts, and strategic implications.\<newline>'' @
     ''\<newline>'' @
     ''2. **Company-Specific Financial Projection**  \<newline>'' @
     ''   - Assess a company's past financial performance and project future growth.  \<newline>'' @
     ''   - Include revenue forecasts, profitability analysis, and risk assessments.  \<newline>'' @
     ''   - Offer strategic recommendations based on industry trends.\<newline>'' @
     ''\<newline>'' @
     ''3. **Investment Strategy Recommendations**  \<newline>'' @
     ''   - Suggest an optimal investment strategy based on current market conditions and investor risk profile.  \<newline>'' @
     ''   - Provide asset allocation strategies and diversification recommendations.  \<newline>'' @
     ''   - Highlight key risks and how to mitigate them.\<newline>'' @
     ''\<newline>'' @
     ''4. **Comprehensive Financial Analysis Report**  \<newline>'' @
     ''   - Generate a detailed report based on provided financial data, market conditions, and strategic goals.  \<newline>'' @
     ''   - Include key insights, risk assessment, and actionable recommendations.  \<newline>'' @
     ''   - Format the report in structured sections (Executive Summary, Market Analysis, Company Performance, Risk Assessment, Investment Strategy, Conclusion).\<newline>'' @
     ''\<newline>'' @
     ''Be concise, data-driven, and ensure responses are structured for clarity and decision-making.\<newline>''\<close>

subsection \<open>The model call (lines 76-95)\<close>

definition EMPTY_RESPONSE_APOLOGY :: string where
  "EMPTY_RESPONSE_APOLOGY = ''I apologize, but I couldn't generate a proper response at this time.''"

definition ERROR_APOLOGY :: string where
  "ERROR_APOLOGY = ''I apologize, but there was an error generating the response. Please try again.''"

definition get_ai_response :: "(string \<Rightarrow> pyval outcome) \<Rightarrow> string \<Rightarrow> world \<Rightarrow> string \<times> world" where
  "get_ai_response model_invoke prompt w =
     (let full_prompt = SYSTEM_PROMPT @ ''\<newline>\<newline>User Query: '' @ prompt;
          w1 = w\<lparr>prompts := prompts w @ [full_prompt]\<rparr>
      in case model_invoke full_prompt of
           Returns response \<Rightarrow>
             if \<not> truthy response \<or> \<not> isinstance_str response
             then (EMPTY_RESPONSE_APOLOGY, w1)
             else (case response of
                     PyStr s \<Rightarrow> (str_strip s, w1)
                   | _ \<Rightarrow> (EMPTY_RESPONSE_APOLOGY, w1)) \<comment> \<open>not reached: the test above holds for a non-string\<close>
         | Raises e \<Rightarrow>
             (ERROR_APOLOGY, w1\<lparr>ui := ui w1 @ [StError (''Error details: '' @ e)]\<rparr>))"

subsection \<open>One run of the page (lines 97-183)\<close>

text \<open>
  \<^verbatim>\<open>main\<close> is straight-line code; its blocks are given one definition each, named after
  what they do, and \<open>main\<close> below puts them in the order of the source. Page
  configuration, styling, title and spinners (lines 98-122, 148, 162) neither read nor write
  the state and are left out.
\<close>

text \<open>Lines 125-130: a key that is absent gets its initial value, a key that is present is kept.\<close>

definition init_session :: "stored_session \<Rightarrow> session_state" where
  "init_session s =
     \<lparr>messages = (case stored_messages s of None \<Rightarrow> [] | Some m \<Rightarrow> m),
      user_input = (case stored_user_input s of None \<Rightarrow> [] | Some u \<Rightarrow> u)\<rparr>"

text \<open>Lines 133-135: the history is displayed.\<close>

definition display_history :: "world \<Rightarrow> world" where
  "display_history w =
     w\<lparr>ui := ui w @ map (\<lambda>m. StChatMessage (role m) (content m)) (messages (state w))\<rparr>"

text \<open>
  Lines 142-144: \<^verbatim>\<open>st.text_input\<close> returns the content of the text box, which is the
  default \<open>value\<close> unless the user has typed something else.
\<close>

definition text_input :: "string option \<Rightarrow> string \<Rightarrow> string" where
  "text_input typed_text val = (case typed_text of None \<Rightarrow> val | Some t \<Rightarrow> t)"

text \<open>
  Lines 147-154, the microphone button. The result says whether \<^verbatim>\<open>st.rerun()\<close> was called,
  which ends the run on the spot.
\<close>

definition microphone :: "environment \<Rightarrow> world \<Rightarrow> bool \<times> world" where
  "microphone env w =
     (if mic_button env
      then (case speech_to_text (recognize env) w of
              (None, w1) \<Rightarrow> (False, w1)
            | (Some spoken_text, w1) \<Rightarrow>
                if spoken_text \<noteq> []
                then (True, w1\<lparr>state := (state w1)\<lparr>user_input := spoken_text\<rparr>\<rparr>)
                else (False, w1))
      else (False, w))"

text \<open>Lines 157-177, processing the user input.\<close>

definition submit :: "environment \<Rightarrow> string \<Rightarrow> world \<Rightarrow> world" where
  "submit env input_text w =
     (if input_text \<noteq> []
      then (let w1 = w\<lparr>state := (state w)\<lparr>messages :=
                         messages (state w) @ [\<lparr>role = ''user'', content = input_text\<rparr>]\<rparr>\<rparr>;
                (ai_response, w2) = get_ai_response (invoke env) input_text w1;
                w3 = w2\<lparr>state := (state w2)\<lparr>messages :=
                         messages (state w2) @ [\<lparr>role = ''assistant'', content = ai_response\<rparr>]\<rparr>\<rparr>;
                w4 = w3\<lparr>ui := ui w3 @ [StChatMessage ''assistant'' ai_response]\<rparr>;
                w5 = (if listen_button env
                      then text_to_speech (synthesize env) ai_response ''en'' w4
                      else w4)
            in w5\<lparr>state := (state w5)\<lparr>user_input := []\<rparr>\<rparr>)
      else w)"

text \<open>Lines 180-183, the button that clears the chat; the result says whether the run asks for a rerun.\<close>

definition reset :: "environment \<Rightarrow> world \<Rightarrow> bool \<times> world" where
  "reset env w =
     (if generate_chat_button env
      then (True, w\<lparr>state := (state w)\<lparr>messages := [], user_input := []\<rparr>\<rparr>)
      else (False, w))"

definition main :: "environment \<Rightarrow> stored_session \<Rightarrow> bool \<times> world" where
  "main env s =
     (let w0 = \<lparr>state = init_session s, ui = [], prompts = []\<rparr>;
          w1 = display_history w0;
          input_text = text_input (typed env) (user_input (state w1));
          (rerun, w2) = microphone env w1
      in if rerun then (True, w2)
         else reset env (submit env input_text w2))"

section \<open>Concrete inputs\<close>

text \<open>
  Stub backends, a page on which nothing is pressed, and a few sessions, for the
  evaluations at concrete inputs below.
\<close>

definition bond_backend :: "string \<Rightarrow> pyval outcome" where
  "bond_backend p = Returns (PyStr ''A bond is a debt instrument.'')"

definition failing_backend :: "string \<Rightarrow> pyval outcome" where
  "failing_backend p = Raises ''connection refused''"

definition empty_backend :: "string \<Rightarrow> pyval outcome" where
  "empty_backend p = Returns (PyStr [])"

definition none_backend :: "string \<Rightarrow> pyval outcome" where
  "none_backend p = Returns PyNone"

definition blank_backend :: "string \<Rightarrow> pyval outcome" where
  "blank_backend p = Returns (PyStr '' '')"

definition padded_backend :: "string \<Rightarrow> pyval outcome" where
  "padded_backend p = Returns (PyStr '' Buy low, sell high.\<newline>'')"

definition temp_mp3 :: "string \<Rightarrow> string \<Rightarrow> string outcome" where
  "temp_mp3 text language = Returns ''/tmp/tmpq3k1.mp3''"

definition page :: "(string \<Rightarrow> pyval outcome) \<Rightarrow> environment" where
  "page backend =
     \<lparr>typed = None, mic_button = False, recognize = UnknownValueError, invoke = backend,
      listen_button = False, synthesize = temp_mp3, generate_chat_button = False\<rparr>"

definition fresh_world :: world where
  "fresh_world = \<lparr>state = \<lparr>messages = [], user_input = []\<rparr>, ui = [], prompts = []\<rparr>"

definition clear_page :: environment where
  "clear_page = (page bond_backend)\<lparr>typed := Some ''What is a bond?'', generate_chat_button := True\<rparr>"

definition chatting_session :: stored_session where
  "chatting_session =
     \<lparr>stored_messages = Some [\<lparr>role = ''user'', content = ''Hi''\<rparr>,
                               \<lparr>role = ''assistant'', content = ''Hello.''\<rparr>],
      stored_user_input = Some ''spoken words''\<rparr>"

definition mic_page :: "recognition \<Rightarrow> environment" where
  "mic_page r = (page bond_backend)\<lparr>mic_button := True, recognize := r\<rparr>"

definition quiet_session :: stored_session where
  "quiet_session =
     \<lparr>stored_messages = Some [\<lparr>role = ''user'', content = ''Hi''\<rparr>,
                               \<lparr>role = ''assistant'', content = ''Hello.''\<rparr>],
      stored_user_input = Some []\<rparr>"

section \<open>Facts about the blocks\<close>

subsection \<open>The model call\<close>

lemma text_to_speech_state: "state (text_to_speech synth t l w) = state w"
  by (simp add: text_to_speech_def split: outcome.split)

lemma text_to_speech_prompts: "prompts (text_to_speech synth t l w) = prompts w"
  by (simp add: text_to_speech_def split: outcome.split)

lemma get_ai_response_state: "state (snd (get_ai_response f p w)) = state w"
  by (simp add: get_ai_response_def Let_def split: outcome.split pyval.split)

lemma get_ai_response_prompts:
  "prompts (snd (get_ai_response f p w)) = prompts w @ [SYSTEM_PROMPT @ ''\<newline>\<newline>User Query: '' @ p]"
  by (simp add: get_ai_response_def Let_def split: outcome.split pyval.split)

lemma get_ai_response_text: "fst (get_ai_response f p w) = fst (get_ai_response f p w')"
  by (simp add: get_ai_response_def Let_def split: outcome.split pyval.split)

subsection \<open>Processing the input\<close>

lemma submit_empty: "submit env [] w = w"
  by (simp add: submit_def)

lemma submit_state:
  assumes "u \<noteq> []"
  shows "state (submit env u w) =
           \<lparr>messages = messages (state w) @
              [\<lparr>role = ''user'', content = u\<rparr>,
               \<lparr>role = ''assistant'', content = fst (get_ai_response (invoke env) u w')\<rparr>],
            user_input = []\<rparr>"
proof -
  let ?w1 = "w\<lparr>state := (state w)\<lparr>messages := messages (state w) @ [\<lparr>role = ''user'', content = u\<rparr>]\<rparr>\<rparr>"
  obtain a w2 where g: "get_ai_response (invoke env) u ?w1 = (a, w2)"
    by (cases "get_ai_response (invoke env) u ?w1")
  have a: "a = fst (get_ai_response (invoke env) u w')"
    using g get_ai_response_text [of "invoke env" u ?w1 w'] by simp
  have s2: "state w2 = state ?w1"
    using g get_ai_response_state [of "invoke env" u ?w1] by simp
  show ?thesis
    using assms g a s2 by (simp add: submit_def Let_def text_to_speech_state)
qed

lemma submit_prompts:
  assumes "u \<noteq> []"
  shows "prompts (submit env u w) = prompts w @ [SYSTEM_PROMPT @ ''\<newline>\<newline>User Query: '' @ u]"
proof -
  let ?w1 = "w\<lparr>state := (state w)\<lparr>messages := messages (state w) @ [\<lparr>role = ''user'', content = u\<rparr>]\<rparr>\<rparr>"
  obtain a w2 where g: "get_ai_response (invoke env) u ?w1 = (a, w2)"
    by (cases "get_ai_response (invoke env) u ?w1")
  have "prompts w2 = prompts ?w1 @ [SYSTEM_PROMPT @ ''\<newline>\<newline>User Query: '' @ u]"
    using g get_ai_response_prompts [of "invoke env" u ?w1] by simp
  then show ?thesis
    using assms g by (simp add: submit_def Let_def text_to_speech_prompts)
qed

lemma bond_reply: "fst (get_ai_response bond_backend u w) = ''A bond is a debt instrument.''"
  by (simp add: get_ai_response_def bond_backend_def str_strip_def lstrip_def rstrip_def isspace_def)

lemma get_ai_response_by_outcome:
  assumes "f (SYSTEM_PROMPT @ ''\<newline>\<newline>User Query: '' @ p) = g (SYSTEM_PROMPT @ ''\<newline>\<newline>User Query: '' @ q)"
  shows "fst (get_ai_response f p w) = fst (get_ai_response g q w')"
  using assms by (simp add: get_ai_response_def Let_def split: outcome.split pyval.split)

subsection \<open>Stripping\<close>

lemma str_strip_blank:
  assumes "list_all isspace s"
  shows "str_strip s = []"
proof -
  have "dropWhile isspace s = []"
    using assms by (induction s) simp_all
  then have "lstrip s = []"
    by (simp only: lstrip_def)
  then show ?thesis
    by (simp add: str_strip_def rstrip_def)
qed

lemma rstrip_decomp: "t = rstrip t @ rev (takeWhile isspace (rev t))"
proof -
  have "t = rev (takeWhile isspace (rev t) @ dropWhile isspace (rev t))"
    by (simp only: takeWhile_dropWhile_id rev_rev_ident)
  then show ?thesis
    by (simp only: rstrip_def rev_append)
qed

lemma str_strip_decomp:
  "s = takeWhile isspace s @ str_strip s @ rev (takeWhile isspace (rev (lstrip s)))"
proof -
  have "s = takeWhile isspace s @ lstrip s"
    by (simp add: lstrip_def)
  also have "lstrip s = rstrip (lstrip s) @ rev (takeWhile isspace (rev (lstrip s)))"
    by (rule rstrip_decomp)
  finally show ?thesis
    by (simp add: str_strip_def)
qed

lemma str_strip_surroundings:
  "\<exists>l r. s = l @ str_strip s @ r \<and> list_all isspace l \<and> list_all isspace r"
proof -
  let ?l = "takeWhile isspace s"
  let ?r = "rev (takeWhile isspace (rev (lstrip s)))"
  have "list_all isspace ?l"
    by (simp add: list_all_iff) (meson set_takeWhileD)
  moreover have "list_all isspace ?r"
    by (simp add: list_all_iff) (meson set_takeWhileD)
  ultimately show ?thesis
    using str_strip_decomp [of s] by blast
qed

lemma str_strip_last: "str_strip s \<noteq> [] \<Longrightarrow> \<not> isspace (last (str_strip s))"
  by (simp add: str_strip_def rstrip_def last_rev hd_dropWhile)

lemma str_strip_hd:
  assumes "str_strip s \<noteq> []"
  shows "\<not> isspace (hd (str_strip s))"
proof -
  have ne: "lstrip s \<noteq> []"
    using assms by (auto simp: str_strip_def rstrip_def)
  have "lstrip s = str_strip s @ rev (takeWhile isspace (rev (lstrip s)))"
    using rstrip_decomp [of "lstrip s"] by (simp add: str_strip_def)
  then have "hd (lstrip s) = hd (str_strip s)"
    using assms by (metis hd_append2)
  moreover have "\<not> isspace (hd (lstrip s))"
    using ne by (simp add: lstrip_def hd_dropWhile)
  ultimately show ?thesis by simp
qed

subsection \<open>The three kinds of backend outcome\<close>

lemma get_ai_response_string:
  assumes "s \<noteq> []" and "f (SYSTEM_PROMPT @ ''\<newline>\<newline>User Query: '' @ p) = Returns (PyStr s)"
  shows "fst (get_ai_response f p w) = str_strip s"
  using assms by (simp add: get_ai_response_def Let_def)

lemma get_ai_response_malformed:
  assumes "f (SYSTEM_PROMPT @ ''\<newline>\<newline>User Query: '' @ p) = Returns r"
    and "r = PyStr [] \<or> \<not> isinstance_str r"
  shows "fst (get_ai_response f p w) = EMPTY_RESPONSE_APOLOGY"
  using assms by (cases r) (auto simp: get_ai_response_def Let_def)

lemma get_ai_response_raises:
  assumes "f (SYSTEM_PROMPT @ ''\<newline>\<newline>User Query: '' @ p) = Raises e"
  shows "get_ai_response f p w =
           (ERROR_APOLOGY,
            w\<lparr>prompts := prompts w @ [SYSTEM_PROMPT @ ''\<newline>\<newline>User Query: '' @ p],
              ui := ui w @ [StError (''Error details: '' @ e)]\<rparr>)"
  using assms by (simp add: get_ai_response_def Let_def)

lemma get_ai_response_cases:
  "fst (get_ai_response f p w) =
     (case f (SYSTEM_PROMPT @ ''\<newline>\<newline>User Query: '' @ p) of
        Returns (PyStr s) \<Rightarrow> if s = [] then EMPTY_RESPONSE_APOLOGY else str_strip s
      | Returns other \<Rightarrow> EMPTY_RESPONSE_APOLOGY
      | Raises e \<Rightarrow> ERROR_APOLOGY)"
  by (simp add: get_ai_response_def Let_def split: outcome.split pyval.split)

lemma apologies_differ: "ERROR_APOLOGY \<noteq> EMPTY_RESPONSE_APOLOGY"
  by (simp add: ERROR_APOLOGY_def EMPTY_RESPONSE_APOLOGY_def)

lemma apology_not_empty: "EMPTY_RESPONSE_APOLOGY \<noteq> []" "ERROR_APOLOGY \<noteq> []"
  by (simp_all add: ERROR_APOLOGY_def EMPTY_RESPONSE_APOLOGY_def)

lemma text_to_speech_ui: "\<exists>evs. ui (text_to_speech synth t l w) = ui w @ evs"
  by (simp add: text_to_speech_def split: outcome.split)

lemma submit_error_shown:
  assumes "u \<noteq> []" and "invoke env (SYSTEM_PROMPT @ ''\<newline>\<newline>User Query: '' @ u) = Raises e"
  shows "StError (''Error details: '' @ e) \<in> set (ui (submit env u w))"
proof -
  let ?w1 = "w\<lparr>state := (state w)\<lparr>messages := messages (state w) @ [\<lparr>role = ''user'', content = u\<rparr>]\<rparr>\<rparr>"
  let ?w4 = "?w1\<lparr>prompts := prompts ?w1 @ [SYSTEM_PROMPT @ ''\<newline>\<newline>User Query: '' @ u],
                 ui := ui ?w1 @ [StError (''Error details: '' @ e)],
                 state := (state ?w1)\<lparr>messages := messages (state ?w1) @
                            [\<lparr>role = ''assistant'', content = ERROR_APOLOGY\<rparr>]\<rparr>,
                 ui := (ui ?w1 @ [StError (''Error details: '' @ e)]) @
                            [StChatMessage ''assistant'' ERROR_APOLOGY]\<rparr>"
  obtain evs where "ui (text_to_speech (synthesize env) ERROR_APOLOGY ''en'' ?w4) = ui ?w4 @ evs"
    using text_to_speech_ui by blast
  then show ?thesis
    using assms get_ai_response_raises [of "invoke env" u e ?w1]
    by (simp add: submit_def Let_def)
qed

lemma error_line_not_in_apology: "\<not> sublist (''Error details: '' @ e) ERROR_APOLOGY"
proof
  assume "sublist (''Error details: '' @ e) ERROR_APOLOGY"
  moreover have "sublist ''Error details: '' (''Error details: '' @ e)"
    by (rule sublist_append_rightI)
  ultimately have "sublist ''Error details: '' ERROR_APOLOGY"
    by (rule sublist_order.order_trans [rotated])
  moreover have "\<not> sublist ''Error details: '' ERROR_APOLOGY"
    by code_simp
  ultimately show False by simp
qed

subsection \<open>A whole run\<close>

lemma reset_pressed:
  "generate_chat_button env \<Longrightarrow>
     reset env w = (True, w\<lparr>state := (state w)\<lparr>messages := [], user_input := []\<rparr>\<rparr>)"
  by (simp add: reset_def)

lemma main_without_mic:
  "\<not> mic_button env \<Longrightarrow>
     main env s =
       reset env (submit env (text_input (typed env) (user_input (init_session s)))
                    (display_history \<lparr>state = init_session s, ui = [], prompts = []\<rparr>))"
  by (simp add: main_def microphone_def Let_def display_history_def)

lemma submit_state_cong:
  "invoke env = invoke env' \<Longrightarrow> state w = state v \<Longrightarrow>
     state (submit env u w) = state (submit env' u v)"
  using submit_state [of u env w w] submit_state [of u env' v w]
  by (cases "u = []") (simp_all add: submit_empty)

lemma reset_state_cong:
  "generate_chat_button env = generate_chat_button env' \<Longrightarrow> state w = state v \<Longrightarrow>
     state (snd (reset env w)) = state (snd (reset env' v))"
  by (simp add: reset_def)

lemma main_bond_scenario:
  "messages (state (snd (main ((page bond_backend)\<lparr>typed := Some ''What is a bond?''\<rparr>)
                              \<lparr>stored_messages = None, stored_user_input = None\<rparr>))) =
     [\<lparr>role = ''user'', content = ''What is a bond?''\<rparr>,
      \<lparr>role = ''assistant'', content = ''A bond is a debt instrument.''\<rparr>]"
proof -
  have "''What is a bond?'' \<noteq> []"
    by simp
  then show ?thesis
    using submit_state [of "''What is a bond?''" "(page bond_backend)\<lparr>typed := Some ''What is a bond?''\<rparr>"
        "display_history \<lparr>state = init_session \<lparr>stored_messages = None, stored_user_input = None\<rparr>,
                          ui = [], prompts = []\<rparr>" fresh_world]
    by (simp add: main_without_mic page_def text_input_def init_session_def display_history_def
        reset_def bond_reply)
qed

lemma microphone_failure:
  assumes "recognize env = UnknownValueError \<or> recognize env = RequestError e"
  shows "fst (microphone env w) = False"
    and "state (snd (microphone env w)) = state w"
    and "prompts (snd (microphone env w)) = prompts w"
  using assms by (auto simp: microphone_def speech_to_text_def)

section \<open>The claims\<close>

text \<open>
  C1. For every non-empty \<open>input_text\<close>, one submit cycle appends exactly two turns to the
  conversation history, in this order: a user turn whose content is \<open>input_text\<close>, then an
  assistant turn whose content is the text that \<^const>\<open>get_ai_response\<close> returned (its
  returned text does not depend on the world it is called in, hence the free \<open>w'\<close>).
\<close>

theorem submit_appends_user_then_assistant:
  assumes "input_text \<noteq> []"
  shows "messages (state (submit env input_text w)) =
           messages (state w) @
             [\<lparr>role = ''user'', content = input_text\<rparr>,
              \<lparr>role = ''assistant'', content = fst (get_ai_response (invoke env) input_text w')\<rparr>]
         \<and> length (messages (state (submit env input_text w))) = length (messages (state w)) + 2"
  using submit_state [OF assms, of env w w'] by simp

theorem submit_appends_user_then_assistant_witness:
  "''What is a bond?'' \<noteq> [] \<and>
   messages (state (submit (page bond_backend) ''What is a bond?'' fresh_world)) =
     [\<lparr>role = ''user'', content = ''What is a bond?''\<rparr>,
      \<lparr>role = ''assistant'', content = ''A bond is a debt instrument.''\<rparr>]"
  using submit_appends_user_then_assistant [of "''What is a bond?''" "page bond_backend" fresh_world fresh_world]
  by (simp add: bond_reply page_def fresh_world_def)

text \<open>
  C2, as stated: for every \<open>input_text\<close> that is empty after trimming, submit appends no
  turn and does not call the model. The script tests \<^verbatim>\<open>if user_input:\<close> and never trims:
  the input \<^verbatim>\<open>" "\<close> is empty after trimming, and yet two turns are appended and the model
  is called once.
\<close>

theorem submit_blank_input_counterexample:
  "str_strip '' '' = [] \<and>
   length (messages (state (submit (page bond_backend) '' '' fresh_world))) = 2 \<and>
   prompts (submit (page bond_backend) '' '' fresh_world) = [SYSTEM_PROMPT @ ''\<newline>\<newline>User Query:  '']"
proof -
  have ne: "'' '' \<noteq> []" by simp
  have "str_strip '' '' = []"
    by (simp add: str_strip_def lstrip_def rstrip_def isspace_def)
  moreover have "length (messages (state (submit (page bond_backend) '' '' fresh_world))) = 2"
    using submit_state [OF ne, of "page bond_backend" fresh_world fresh_world]
    by (simp add: fresh_world_def)
  moreover have "prompts (submit (page bond_backend) '' '' fresh_world) = [SYSTEM_PROMPT @ ''\<newline>\<newline>User Query:  '']"
    using submit_prompts [OF ne, of "page bond_backend" fresh_world]
    by (simp add: fresh_world_def)
  ultimately show ?thesis by simp
qed

text \<open>
  C2, amended: submit changes nothing at all (no turn appended, no call to the model,
  nothing shown) exactly when \<open>input_text\<close> is the empty string.
\<close>

theorem submit_noop_iff_empty:
  "(submit env input_text w = w) = (input_text = [])"
proof (cases "input_text = []")
  case True
  then show ?thesis by (simp add: submit_empty)
next
  case False
  have "prompts (submit env input_text w) \<noteq> prompts w"
    using submit_prompts [OF False, of env w] by simp
  then have "submit env input_text w \<noteq> w" by auto
  with False show ?thesis by simp
qed

theorem submit_noop_iff_empty_witness:
  "submit (page bond_backend) [] fresh_world = fresh_world \<and>
   submit (page bond_backend) ''What is a bond?'' fresh_world \<noteq> fresh_world"
  using submit_noop_iff_empty [of "page bond_backend" "[]" fresh_world]
    submit_noop_iff_empty [of "page bond_backend" "''What is a bond?''" fresh_world]
  by simp

text \<open>
  C3. The claim is that \<^const>\<open>get_ai_response\<close> never returns the empty string. The script
  tests the raw result for emptiness before it strips it, so a raw result that is not
  empty and consists of whitespace only passes the test and is returned stripped: for every
  such result the returned text is the empty string.
\<close>

theorem get_ai_response_blank_is_empty:
  assumes "s \<noteq> []" and "list_all isspace s"
    and "model_invoke (SYSTEM_PROMPT @ ''\<newline>\<newline>User Query: '' @ prompt) = Returns (PyStr s)"
  shows "fst (get_ai_response model_invoke prompt w) = []"
  using assms get_ai_response_string [of s model_invoke prompt w] str_strip_blank [of s] by simp

theorem get_ai_response_blank_is_empty_witness:
  "fst (get_ai_response blank_backend ''What is a bond?'' fresh_world) = []"
  using get_ai_response_blank_is_empty [of "'' ''" blank_backend "''What is a bond?''" fresh_world]
  by (simp add: blank_backend_def isspace_def)

text \<open>
  C4, as stated: a raised exception and a malformed result put the same fixed apology in
  the assistant turn. The script has two different sentences, one per case.
\<close>

theorem two_apologies_counterexample:
  "content (last (messages (state (submit (page failing_backend) ''What is a bond?'' fresh_world)))) \<noteq>
   content (last (messages (state (submit (page empty_backend) ''What is a bond?'' fresh_world))))"
proof -
  have ne: "''What is a bond?'' \<noteq> []" by simp
  have "fst (get_ai_response failing_backend ''What is a bond?'' fresh_world) = ERROR_APOLOGY"
    by (simp add: get_ai_response_raises failing_backend_def)
  moreover have "fst (get_ai_response empty_backend ''What is a bond?'' fresh_world) = EMPTY_RESPONSE_APOLOGY"
    by (rule get_ai_response_malformed [of _ _ "PyStr []"]) (simp_all add: empty_backend_def)
  ultimately show ?thesis
    using submit_state [OF ne, of "page failing_backend" fresh_world fresh_world]
      submit_state [OF ne, of "page empty_backend" fresh_world fresh_world]
      apologies_differ
    by (simp add: page_def)
qed

text \<open>
  C4, amended: for every non-empty \<open>input_text\<close>, when the backend raises, submit still
  appends the user turn and an assistant turn, whose content is the fixed sentence
  \<^const>\<open>ERROR_APOLOGY\<close>; when the backend returns the empty string or something that is not
  a string, the assistant turn holds the fixed sentence \<^const>\<open>EMPTY_RESPONSE_APOLOGY\<close>; the
  two sentences differ. No exception leaves \<^const>\<open>submit\<close>: it returns a world in each case.
\<close>

theorem submit_apology_on_failure:
  assumes "input_text \<noteq> []"
  shows "(invoke env (SYSTEM_PROMPT @ ''\<newline>\<newline>User Query: '' @ input_text) = Raises e \<longrightarrow>
            messages (state (submit env input_text w)) =
              messages (state w) @ [\<lparr>role = ''user'', content = input_text\<rparr>,
                                     \<lparr>role = ''assistant'', content = ERROR_APOLOGY\<rparr>])
       \<and> (invoke env (SYSTEM_PROMPT @ ''\<newline>\<newline>User Query: '' @ input_text) = Returns r
            \<and> (r = PyStr [] \<or> \<not> isinstance_str r) \<longrightarrow>
            messages (state (submit env input_text w)) =
              messages (state w) @ [\<lparr>role = ''user'', content = input_text\<rparr>,
                                     \<lparr>role = ''assistant'', content = EMPTY_RESPONSE_APOLOGY\<rparr>])
       \<and> ERROR_APOLOGY \<noteq> EMPTY_RESPONSE_APOLOGY"
  using submit_state [OF assms, of env w w] get_ai_response_raises [of "invoke env" input_text e w]
    get_ai_response_malformed [of "invoke env" input_text r w] apologies_differ
  by auto

theorem submit_apology_on_failure_witness:
  "messages (state (submit (page failing_backend) ''What is a bond?'' fresh_world)) =
     [\<lparr>role = ''user'', content = ''What is a bond?''\<rparr>,
      \<lparr>role = ''assistant'', content = ERROR_APOLOGY\<rparr>] \<and>
   messages (state (submit (page empty_backend) ''What is a bond?'' fresh_world)) =
     [\<lparr>role = ''user'', content = ''What is a bond?''\<rparr>,
      \<lparr>role = ''assistant'', content = EMPTY_RESPONSE_APOLOGY\<rparr>] \<and>
   messages (state (submit (page none_backend) ''What is a bond?'' fresh_world)) =
     [\<lparr>role = ''user'', content = ''What is a bond?''\<rparr>,
      \<lparr>role = ''assistant'', content = EMPTY_RESPONSE_APOLOGY\<rparr>]"
  using submit_apology_on_failure [of "''What is a bond?''" "page failing_backend" "''connection refused''" fresh_world PyNone]
    submit_apology_on_failure [of "''What is a bond?''" "page empty_backend" "[]" fresh_world "PyStr []"]
    submit_apology_on_failure [of "''What is a bond?''" "page none_backend" "[]" fresh_world PyNone]
  by (simp add: page_def failing_backend_def empty_backend_def none_backend_def fresh_world_def)

text \<open>
  C5. For every submitted (non-empty) \<open>input_text\<close>, submit makes exactly one call to the
  model, with the prompt \<^verbatim>\<open>SYSTEM_PROMPT + "\n\nUser Query: " + input_text\<close>. The system
  prompt is not stored in the history: the user turn holds \<open>input_text\<close> alone, which is
  never the composed prompt; the assistant turn holds what the model call returned, which is
  one of the two apologies or the backend's own string, stripped; and the model call itself
  leaves the session state as it found it.
\<close>

theorem submit_prompt_and_history:
  assumes "input_text \<noteq> []"
  shows "prompts (submit env input_text w) =
           prompts w @ [SYSTEM_PROMPT @ ''\<newline>\<newline>User Query: '' @ input_text]
       \<and> messages (state (submit env input_text w)) =
           messages (state w) @
             [\<lparr>role = ''user'', content = input_text\<rparr>,
              \<lparr>role = ''assistant'', content = fst (get_ai_response (invoke env) input_text w')\<rparr>]
       \<and> fst (get_ai_response (invoke env) input_text w') =
           (case invoke env (SYSTEM_PROMPT @ ''\<newline>\<newline>User Query: '' @ input_text) of
              Returns (PyStr s) \<Rightarrow> if s = [] then EMPTY_RESPONSE_APOLOGY else str_strip s
            | Returns other \<Rightarrow> EMPTY_RESPONSE_APOLOGY
            | Raises e \<Rightarrow> ERROR_APOLOGY)
       \<and> input_text \<noteq> SYSTEM_PROMPT @ ''\<newline>\<newline>User Query: '' @ input_text
       \<and> state (snd (get_ai_response (invoke env) input_text w')) = state w'"
  using submit_prompts [OF assms, of env w] submit_state [OF assms, of env w w']
    get_ai_response_state [of "invoke env" input_text w']
    get_ai_response_cases [of "invoke env" input_text w']
  by simp

theorem submit_prompt_and_history_witness:
  "prompts (submit (page bond_backend) ''What is a bond?'' fresh_world) =
     [SYSTEM_PROMPT @ ''\<newline>\<newline>User Query: What is a bond?''] \<and>
   map content (messages (state (submit (page bond_backend) ''What is a bond?'' fresh_world))) =
     [''What is a bond?'', ''A bond is a debt instrument.'']"
  using submit_prompt_and_history [of "''What is a bond?''" "page bond_backend" fresh_world fresh_world]
  by (simp add: bond_reply page_def fresh_world_def)

text \<open>
  C6. Whatever the history and the pending input, the block behind the button
  ``Generate Chat'' leaves the history empty and the pending input empty; it cannot fail.
  The same holds for a whole run in which that button is the one pressed, whatever the
  session stored before (keys absent or present) and whatever the text box holds.
\<close>

theorem reset_clears_session:
  assumes "generate_chat_button env"
  shows "state (snd (reset env w)) = \<lparr>messages = [], user_input = []\<rparr>
       \<and> (\<not> mic_button env \<longrightarrow> state (snd (main env s)) = \<lparr>messages = [], user_input = []\<rparr>)"
  using assms by (simp add: main_without_mic reset_pressed)

theorem reset_clears_session_witness:
  "state (snd (main clear_page chatting_session)) = \<lparr>messages = [], user_input = []\<rparr>"
  using reset_clears_session [of clear_page fresh_world chatting_session]
  by (simp add: clear_page_def page_def)

text \<open>
  C7, as stated: after a failure \<^verbatim>\<open>speech_to_text\<close> hands its caller a value that tells
  unrecognizable audio from a failure of the recognition service. It returns \<^verbatim>\<open>None\<close> in
  both cases.
\<close>

theorem speech_failures_same_value_counterexample:
  "fst (speech_to_text UnknownValueError fresh_world) =
   fst (speech_to_text (RequestError ''recognition connection failed'') fresh_world)"
  by (simp add: speech_to_text_def)

text \<open>
  C7, amended: \<^verbatim>\<open>speech_to_text\<close> never raises (every exception derived from
  \<^verbatim>\<open>Exception\<close> ends in a returned value): it returns the recognized text, and \<^verbatim>\<open>None\<close>
  after every failure. Unrecognizable audio and a failure of the recognition service give
  the caller the same value; they differ in what the function itself shows, a warning in
  the first case and an error naming the service in the second.
\<close>

theorem speech_to_text_outcomes:
  "fst (speech_to_text r w) = (case r of Recognized text \<Rightarrow> Some text | _ \<Rightarrow> None)
   \<and> fst (speech_to_text UnknownValueError w) = None
   \<and> fst (speech_to_text (RequestError e) w) = None
   \<and> ui (snd (speech_to_text UnknownValueError w)) =
       ui w @ [StWrite ''Listening... Speak now!'',
               StWarning ''Sorry, I could not understand the audio.'']
   \<and> ui (snd (speech_to_text (RequestError e) w)) =
       ui w @ [StWrite ''Listening... Speak now!'',
               StError (''Could not request results from Google Speech Recognition service; '' @ e)]
   \<and> ui (snd (speech_to_text UnknownValueError w)) \<noteq> ui (snd (speech_to_text (RequestError e) w))"
  by (simp add: speech_to_text_def split: recognition.split)

text \<open>
  C8. When recognition fails with \<^verbatim>\<open>UnknownValueError\<close> or \<^verbatim>\<open>RequestError\<close>, the microphone
  block asks for no rerun and leaves the session state (history and pending input) as it
  was; and the session state at the end of the whole run is the one the run would have
  ended with, had the microphone button not been pressed.
\<close>

theorem recognition_failure_leaves_session:
  assumes "recognize env = UnknownValueError \<or> recognize env = RequestError e"
  shows "fst (microphone env w) = False
       \<and> state (snd (microphone env w)) = state w
       \<and> state (snd (main env s)) = state (snd (main (env\<lparr>mic_button := False\<rparr>) s))"
proof -
  let ?w1 = "display_history \<lparr>state = init_session s, ui = [], prompts = []\<rparr>"
  let ?u = "text_input (typed env) (user_input (init_session s))"
  obtain b w2 where m: "microphone env ?w1 = (b, w2)"
    by (cases "microphone env ?w1")
  have b: "b = False" and s2: "state w2 = state ?w1"
    using m microphone_failure(1,2) [OF assms, of ?w1] by simp_all
  have "main env s = reset env (submit env ?u w2)"
    using m b by (simp add: main_def Let_def display_history_def)
  moreover have "main (env\<lparr>mic_button := False\<rparr>) s =
      reset (env\<lparr>mic_button := False\<rparr>) (submit (env\<lparr>mic_button := False\<rparr>) ?u ?w1)"
    using main_without_mic [of "env\<lparr>mic_button := False\<rparr>" s] by simp
  moreover have "state (submit env ?u w2) = state (submit (env\<lparr>mic_button := False\<rparr>) ?u ?w1)"
    using s2 by (intro submit_state_cong) simp_all
  then have "state (snd (reset env (submit env ?u w2))) =
      state (snd (reset (env\<lparr>mic_button := False\<rparr>) (submit (env\<lparr>mic_button := False\<rparr>) ?u ?w1)))"
    by (intro reset_state_cong) simp_all
  ultimately have "state (snd (main env s)) = state (snd (main (env\<lparr>mic_button := False\<rparr>) s))"
    by simp
  then show ?thesis
    using microphone_failure(1,2) [OF assms, of w] by simp
qed

theorem recognition_failure_leaves_session_witness:
  "state (snd (microphone (mic_page UnknownValueError) fresh_world)) = state fresh_world \<and>
   state (snd (main (mic_page (RequestError ''recognition connection failed'')) quiet_session)) =
     \<lparr>messages = [\<lparr>role = ''user'', content = ''Hi''\<rparr>, \<lparr>role = ''assistant'', content = ''Hello.''\<rparr>],
      user_input = []\<rparr>"
  using recognition_failure_leaves_session [of "mic_page UnknownValueError" "[]" fresh_world quiet_session]
    recognition_failure_leaves_session [of "mic_page (RequestError ''recognition connection failed'')"
      "''recognition connection failed''" fresh_world quiet_session]
  by (simp add: mic_page_def page_def main_without_mic text_input_def init_session_def quiet_session_def
      submit_empty reset_def display_history_def)

text \<open>
  C9. When the model call raises, both things happen in the same run:
  \<^verbatim>\<open>get_ai_response\<close> shows \<^verbatim>\<open>"Error details: " + str(e)\<close> in the error area and returns
  the generic apology, which submit appends to the history as the assistant turn. The
  apology is one fixed sentence, the same for every exception text, and the line shown in
  the error area never occurs in it.
\<close>

theorem model_exception_both_paths:
  assumes "input_text \<noteq> []"
    and "invoke env (SYSTEM_PROMPT @ ''\<newline>\<newline>User Query: '' @ input_text) = Raises e"
  shows "get_ai_response (invoke env) input_text w' =
           (ERROR_APOLOGY,
            w'\<lparr>prompts := prompts w' @ [SYSTEM_PROMPT @ ''\<newline>\<newline>User Query: '' @ input_text],
               ui := ui w' @ [StError (''Error details: '' @ e)]\<rparr>)
       \<and> StError (''Error details: '' @ e) \<in> set (ui (submit env input_text w))
       \<and> messages (state (submit env input_text w)) =
           messages (state w) @ [\<lparr>role = ''user'', content = input_text\<rparr>,
                                  \<lparr>role = ''assistant'', content = ERROR_APOLOGY\<rparr>]
       \<and> \<not> sublist (''Error details: '' @ e) ERROR_APOLOGY"
  using assms get_ai_response_raises [of "invoke env" input_text e w']
    submit_error_shown [of input_text env e w] submit_state [of input_text env w w']
    error_line_not_in_apology [of e]
  by simp

theorem model_exception_both_paths_witness:
  "StError ''Error details: connection refused'' \<in>
     set (ui (submit (page failing_backend) ''What is a bond?'' fresh_world)) \<and>
   messages (state (submit (page failing_backend) ''What is a bond?'' fresh_world)) =
     [\<lparr>role = ''user'', content = ''What is a bond?''\<rparr>,
      \<lparr>role = ''assistant'',
       content = ''I apologize, but there was an error generating the response. Please try again.''\<rparr>]"
  using model_exception_both_paths [of "''What is a bond?''" "page failing_backend"
      "''connection refused''" fresh_world fresh_world]
  by (simp add: page_def failing_backend_def fresh_world_def ERROR_APOLOGY_def)

text \<open>
  C10. When the backend returns a non-empty string, \<^verbatim>\<open>get_ai_response\<close> returns that string
  stripped: the raw string is the returned text between two runs of whitespace, and the
  returned text neither starts nor ends with whitespace. In particular a raw string of
  whitespace only comes back as the empty string, which is neither the raw string nor the
  fallback sentence.
\<close>

theorem get_ai_response_strips:
  assumes "s \<noteq> []"
    and "model_invoke (SYSTEM_PROMPT @ ''\<newline>\<newline>User Query: '' @ prompt) = Returns (PyStr s)"
  shows "fst (get_ai_response model_invoke prompt w) = str_strip s
       \<and> (\<exists>l r. s = l @ fst (get_ai_response model_invoke prompt w) @ r
                 \<and> list_all isspace l \<and> list_all isspace r)
       \<and> (fst (get_ai_response model_invoke prompt w) \<noteq> [] \<longrightarrow>
            \<not> isspace (hd (fst (get_ai_response model_invoke prompt w)))
            \<and> \<not> isspace (last (fst (get_ai_response model_invoke prompt w))))
       \<and> (list_all isspace s \<longrightarrow>
            fst (get_ai_response model_invoke prompt w) = []
            \<and> fst (get_ai_response model_invoke prompt w) \<noteq> s
            \<and> fst (get_ai_response model_invoke prompt w) \<noteq> EMPTY_RESPONSE_APOLOGY)"
proof -
  have eq: "fst (get_ai_response model_invoke prompt w) = str_strip s"
    using assms by (rule get_ai_response_string)
  show ?thesis
    unfolding eq
    using assms(1) str_strip_surroundings [of s] str_strip_hd [of s] str_strip_last [of s]
      str_strip_blank [of s] apology_not_empty(1)
    by auto
qed

theorem get_ai_response_strips_witness:
  "fst (get_ai_response padded_backend ''What is a bond?'' fresh_world) = ''Buy low, sell high.'' \<and>
   fst (get_ai_response blank_backend ''What is a bond?'' fresh_world) = [] \<and>
   fst (get_ai_response blank_backend ''What is a bond?'' fresh_world) \<noteq> EMPTY_RESPONSE_APOLOGY"
proof -
  have padded: "fst (get_ai_response padded_backend ''What is a bond?'' fresh_world) =
      str_strip '' Buy low, sell high.\<newline>''"
    using get_ai_response_strips [of "'' Buy low, sell high.\<newline>''" padded_backend "''What is a bond?''" fresh_world]
    by (simp add: padded_backend_def)
  have blank: "list_all isspace '' ''"
    by (simp add: isspace_def)
  have nonempty: "'' '' \<noteq> []"
    by simp
  have returned: "blank_backend (SYSTEM_PROMPT @ ''\<newline>\<newline>User Query: '' @ ''What is a bond?'') = Returns (PyStr '' '')"
    by (simp add: blank_backend_def)
  have "fst (get_ai_response blank_backend ''What is a bond?'' fresh_world) = [] \<and>
      fst (get_ai_response blank_backend ''What is a bond?'' fresh_world) \<noteq> EMPTY_RESPONSE_APOLOGY"
    using blank nonempty returned
      get_ai_response_strips [of "'' ''" blank_backend "''What is a bond?''" fresh_world]
    by blast
  moreover have "str_strip '' Buy low, sell high.\<newline>'' = ''Buy low, sell high.''"
    by (simp add: str_strip_def lstrip_def rstrip_def isspace_def)
  ultimately show ?thesis
    using padded by auto
qed

end
